theory Spec2Isabelle
  imports Main
begin

section \<open>mapigator: paginated place search, review scraping, place table\<close>

text \<open>
  A shallow embedding of \<^verbatim>\<open>src/mapigator.py\<close>. The three functions of the module
  talk to the outside world (the places provider over HTTP, a Chrome session driven by
  Selenium, the console). Each is modelled as a function of what the outside world
  answers, returning its Python result together with the list of effects it performed,
  in order.
\<close>

subsection \<open>Python truthiness of an optional string\<close>

text \<open>
  \<^verbatim>\<open>if types:\<close>, \<^verbatim>\<open>if next_page_token:\<close> and \<^verbatim>\<open>if not next_page_token:\<close>
  test a value that is \<^verbatim>\<open>None\<close> or a \<^verbatim>\<open>str\<close>: both \<^verbatim>\<open>None\<close> and the empty string
  are false.
\<close>

fun truthy :: "string option \<Rightarrow> bool" where
  "truthy None = False"
| "truthy (Some s) = (s \<noteq> [])"

subsection \<open>\<^verbatim>\<open>fetch_places\<close>: data\<close>

text \<open>
  The request parameters, the dictionary \<^verbatim>\<open>params\<close> of the source: the keys
  \<^verbatim>\<open>location\<close>, \<^verbatim>\<open>radius\<close> and \<^verbatim>\<open>key\<close> are always there, \<^verbatim>\<open>type\<close> and
  \<^verbatim>\<open>pagetoken\<close> only once they have been stored.
\<close>

record params =
  location :: string
  radius :: int
  key :: string
  type_filter :: "string option"
  pagetoken :: "string option"

text \<open>
  A provider response, the dictionary \<^verbatim>\<open>data = response.json()\<close>: the \<^verbatim>\<open>results\<close>
  array when the key is present, and the \<^verbatim>\<open>next_page_token\<close> string when that key is
  present (\<^verbatim>\<open>data.get("next_page_token")\<close> is \<^verbatim>\<open>None\<close> otherwise). The entries of
  \<^verbatim>\<open>results\<close> are not inspected by \<^verbatim>\<open>fetch_places\<close>, so their type is a parameter.
\<close>

record 'a response =
  results :: "'a list option"
  next_page_token :: "string option"

text \<open>
  The effects of \<^verbatim>\<open>fetch_places\<close>, in the order they happen:
  \<^verbatim>\<open>requests.get(PLACES_URL, params=params)\<close>, the dump of the raw response under
  \<^verbatim>\<open>verbose\<close>, \<^verbatim>\<open>logging.error\<close> and \<^verbatim>\<open>time.sleep\<close> (seconds). The progress
  spinner around the loop is left out.
\<close>

datatype 'a fetch_event =
    Request params
  | RawResponse "'a response"
  | LogError "'a response"
  | Sleep nat

fun is_request :: "'a fetch_event \<Rightarrow> bool" where
  "is_request (Request p) = True"
| "is_request e = False"

subsection \<open>\<^verbatim>\<open>fetch_places\<close>: the type filter\<close>

text \<open>\<^verbatim>\<open>s.split(",")\<close>: the pieces of \<^verbatim>\<open>s\<close> between commas; never the empty list.\<close>

fun split_comma :: "string \<Rightarrow> string list" where
  "split_comma [] = [[]]"
| "split_comma (c # cs) =
     (if c = CHR '','' then [] # split_comma cs
      else (case split_comma cs of
              [] \<Rightarrow> [[c]]
            | w # ws \<Rightarrow> (c # w) # ws))"

text \<open>\<^verbatim>\<open>"|".join(xs)\<close>\<close>

fun join_pipe :: "string list \<Rightarrow> string" where
  "join_pipe [] = []"
| "join_pipe [w] = w"
| "join_pipe (w # ws) = w @ ''|'' @ join_pipe ws"

text \<open>
  Lines 40 to 48: the base query. \<^verbatim>\<open>lat\<close> and \<^verbatim>\<open>lng\<close> are given as the text the
  f-string renders them to; \<^verbatim>\<open>api_key\<close> is the module's global \<^verbatim>\<open>API_KEY\<close>.
\<close>

definition base_params :: "string \<Rightarrow> string \<Rightarrow> string \<Rightarrow> int \<Rightarrow> string option \<Rightarrow> params" where
  "base_params api_key lat lng rad types =
     (let params = \<lparr>location = lat @ '','' @ lng, radius = rad, key = api_key,
                     type_filter = None, pagetoken = None\<rparr>
      in if truthy types
         then params\<lparr>type_filter := Some (join_pipe (split_comma (the types)))\<rparr>
         else params)"

subsection \<open>\<^verbatim>\<open>fetch_places\<close>: the loop\<close>

text \<open>
  The \<^verbatim>\<open>while True\<close> loop of lines 56 to 78. \<^verbatim>\<open>provider i\<close> is the response to the
  request number \<^verbatim>\<open>i\<close> (counted from 0). The loop holds \<^verbatim>\<open>params\<close>,
  \<^verbatim>\<open>next_page_token\<close> and \<^verbatim>\<open>places\<close>; the effects so far are threaded along. A provider that
  hands out a cursor on every page keeps the loop running for ever: the result is then
  \<^verbatim>\<open>None\<close>.
\<close>

partial_function (option) fetch_loop ::
  "(nat \<Rightarrow> 'a response) \<Rightarrow> bool \<Rightarrow> nat \<Rightarrow> params \<Rightarrow> string option \<Rightarrow> 'a list
     \<Rightarrow> 'a fetch_event list \<Rightarrow> ('a list \<times> 'a fetch_event list) option"
where
  "fetch_loop provider verbose i params token places trace =
     (let params1 = (if truthy token then params\<lparr>pagetoken := token\<rparr> else params);
          data = provider i;
          trace1 = trace @ [Request params1] @ (if verbose then [RawResponse data] else [])
      in case results data of
           None \<Rightarrow> Some (places, trace1 @ [LogError data])
         | Some rs \<Rightarrow>
             if \<not> truthy (next_page_token data) then Some (places @ rs, trace1)
             else fetch_loop provider verbose (Suc i) params1 (next_page_token data)
                    (places @ rs) (trace1 @ [Sleep 2]))"

definition fetch_places ::
  "(nat \<Rightarrow> 'a response) \<Rightarrow> string \<Rightarrow> string \<Rightarrow> string \<Rightarrow> int \<Rightarrow> string option \<Rightarrow> bool
     \<Rightarrow> ('a list \<times> 'a fetch_event list) option"
where
  "fetch_places provider api_key lat lng rad types verbose =
     fetch_loop provider verbose 0 (base_params api_key lat lng rad types) None [] []"

text \<open>
  The vocabulary the statements about the loop use. A response \<^emph>\<open>continues\<close> the loop
  when neither \<^verbatim>\<open>break\<close> is taken: \<^verbatim>\<open>results\<close> is present and the cursor is true.
  \<^verbatim>\<open>entries\<close> is what \<^verbatim>\<open>places.extend\<close> adds for a response, \<^verbatim>\<open>set_token\<close> the
  conditional store at the head of the loop, \<^verbatim>\<open>dump\<close> the output under \<^verbatim>\<open>verbose\<close>,
  and \<^verbatim>\<open>next_page\<close> the effects between the response \<^verbatim>\<open>j\<close> and the response
  \<^verbatim>\<open>j + 1\<close>.
\<close>

definition continues :: "'a response \<Rightarrow> bool" where
  "continues r = (results r \<noteq> None \<and> truthy (next_page_token r))"

definition entries :: "'a response \<Rightarrow> 'a list" where
  "entries r = (case results r of None \<Rightarrow> [] | Some rs \<Rightarrow> rs)"

definition set_token :: "params \<Rightarrow> string option \<Rightarrow> params" where
  "set_token p t = (if truthy t then p\<lparr>pagetoken := t\<rparr> else p)"

definition dump :: "bool \<Rightarrow> 'a response \<Rightarrow> 'a fetch_event list" where
  "dump verbose r = (if verbose then [RawResponse r] else [])"

definition next_page ::
  "(nat \<Rightarrow> 'a response) \<Rightarrow> bool \<Rightarrow> params \<Rightarrow> nat \<Rightarrow> 'a fetch_event list"
where
  "next_page provider verbose p j =
     [Sleep 2, Request (p\<lparr>pagetoken := next_page_token (provider j)\<rparr>)]
       @ dump verbose (provider (Suc j))"

text \<open>Three providers, used as concrete inputs. Place entries are shown by a name.\<close>

definition two_pages :: "nat \<Rightarrow> string response" where
  "two_pages i =
     (if i = 0 then \<lparr>results = Some [''a'', ''b''], next_page_token = Some ''tok1''\<rparr>
      else \<lparr>results = Some [''b''], next_page_token = None\<rparr>)"

definition page_then_error :: "nat \<Rightarrow> string response" where
  "page_then_error i =
     (if i = 0 then \<lparr>results = Some [''a'', ''b''], next_page_token = Some ''tok1''\<rparr>
      else \<lparr>results = None, next_page_token = None\<rparr>)"

definition cursor_without_results :: "nat \<Rightarrow> string response" where
  "cursor_without_results i = \<lparr>results = None, next_page_token = Some ''tok1''\<rparr>"

definition empty_cursor :: "nat \<Rightarrow> string response" where
  "empty_cursor i = \<lparr>results = Some [''a''], next_page_token = Some ''''\<rparr>"

subsection \<open>\<^verbatim>\<open>scrape_reviews\<close>: data\<close>

text \<open>
  The exceptions Selenium raises; both are subclasses of \<^verbatim>\<open>Exception\<close>, so
  \<^verbatim>\<open>except Exception\<close> catches them. \<^verbatim>\<open>NoSuchElementException\<close> is what
  \<^verbatim>\<open>find_element\<close> raises when nothing matches; \<^verbatim>\<open>WebDriverException\<close> stands for
  every other failure of the driver.
\<close>

datatype exn = NoSuchElementException | WebDriverException

text \<open>One review record, the dictionary appended at lines 127 to 131 (key \<^verbatim>\<open>text\<close> is
  the field \<^verbatim>\<open>review_text\<close>).\<close>

record review =
  author :: string
  rating :: nat
  review_text :: string

text \<open>An element matched by \<^verbatim>\<open>find_elements(By.CLASS_NAME, "kvMYJc")\<close>; only their number
  is used.\<close>

datatype marker = Marker

text \<open>
  One element of \<^verbatim>\<open>review_elements\<close>, given by what the three lookups on it answer:
  \<^verbatim>\<open>find_element(By.CLASS_NAME, "d4r55").text\<close>,
  \<^verbatim>\<open>find_elements(By.CLASS_NAME, "kvMYJc")\<close> and
  \<^verbatim>\<open>find_element(By.CLASS_NAME, "wiI7pd").text\<close>; \<^verbatim>\<open>Inl\<close> is the exception raised.
\<close>

record container =
  find_author :: "exn + string"
  find_markers :: "exn + marker list"
  find_text :: "exn + string"

text \<open>
  The behaviour of the rendering session during one invocation: for every call the
  function makes on Selenium, the exception it raises (\<^verbatim>\<open>None\<close> when it succeeds) or the
  value it returns. \<^verbatim>\<open>launch\<close> is \<^verbatim>\<open>webdriver.Chrome(service=service, options=options)\<close>,
  \<^verbatim>\<open>navigate\<close> is \<^verbatim>\<open>driver.get(url)\<close>, \<^verbatim>\<open>execute_script s i\<close> is the scroll number
  \<^verbatim>\<open>i\<close>. \<^verbatim>\<open>driver.quit()\<close>, \<^verbatim>\<open>time.sleep\<close> and \<^verbatim>\<open>console.print\<close> are taken not to
  raise.
\<close>

record session =
  launch :: "exn option"
  navigate :: "exn option"
  find_review_button :: "exn option"
  click_review_button :: "exn option"
  find_scrollable_div :: "exn option"
  execute_script :: "nat \<Rightarrow> exn option"
  find_review_elements :: "exn + container list"

text \<open>The console messages and the effects of \<^verbatim>\<open>scrape_reviews\<close>.\<close>

datatype message = Opening string | Loading | Scraped nat | ErrorScraping exn

datatype scrape_event =
    StartChrome
  | Get string
  | Wait nat
  | Print message
  | FindButton
  | Click
  | FindPanel
  | Scroll
  | FindReviews
  | FindAuthor
  | FindMarkers
  | FindText
  | Quit

subsection \<open>\<^verbatim>\<open>scrape_reviews\<close>: statements, exceptions and \<^verbatim>\<open>try\<close>\<close>

text \<open>
  A piece of Python code is its outcome (\<^verbatim>\<open>Inl\<close> the exception that leaves it,
  \<^verbatim>\<open>Inr\<close> its value) with the effects it performed. \<^verbatim>\<open>and_then\<close> is sequencing: what
  follows a raise does not run. \<^verbatim>\<open>try_except\<close> is \<^verbatim>\<open>try: ... except Exception as e: ...\<close>.
\<close>

type_synonym 'a io = "(exn + 'a) \<times> scrape_event list"

definition ret :: "'a \<Rightarrow> 'a io" where
  "ret x = (Inr x, [])"

definition effect :: "scrape_event \<Rightarrow> unit io" where
  "effect ev = (Inr (), [ev])"

definition call :: "scrape_event \<Rightarrow> exn option \<Rightarrow> unit io" where
  "call ev raised = (case raised of None \<Rightarrow> (Inr (), [ev]) | Some e \<Rightarrow> (Inl e, [ev]))"

definition query :: "scrape_event \<Rightarrow> exn + 'a \<Rightarrow> 'a io" where
  "query ev answer = (answer, [ev])"

definition and_then :: "'a io \<Rightarrow> ('a \<Rightarrow> 'b io) \<Rightarrow> 'b io" where
  "and_then m f =
     (case fst m of
        Inl e \<Rightarrow> (Inl e, snd m)
      | Inr x \<Rightarrow> (fst (f x), snd m @ snd (f x)))"

definition try_except :: "'a io \<Rightarrow> (exn \<Rightarrow> 'a io) \<Rightarrow> 'a io" where
  "try_except m handler =
     (case fst m of
        Inl e \<Rightarrow> (fst (handler e), snd m @ snd (handler e))
      | Inr x \<Rightarrow> (Inr x, snd m))"

subsection \<open>\<^verbatim>\<open>scrape_reviews\<close>: the function\<close>

text \<open>Lines 114 to 116, \<^verbatim>\<open>for _ in range(10)\<close>: the list is the scroll numbers left.\<close>

fun scroll_loop :: "session \<Rightarrow> nat list \<Rightarrow> unit io" where
  "scroll_loop s [] = ret ()"
| "scroll_loop s (i # rest) =
     and_then (call Scroll (execute_script s i)) (\<lambda>_.
     and_then (effect (Wait 1)) (\<lambda>_.
     scroll_loop s rest))"

text \<open>Lines 122 to 131, \<^verbatim>\<open>for review in review_elements\<close>, with the list \<^verbatim>\<open>reviews\<close>
  built so far.\<close>

fun parse_loop :: "container list \<Rightarrow> review list \<Rightarrow> review list io" where
  "parse_loop [] reviews = ret reviews"
| "parse_loop (c # rest) reviews =
     and_then (query FindAuthor (find_author c)) (\<lambda>a.
     and_then (query FindMarkers (find_markers c)) (\<lambda>ms.
     and_then (query FindText (find_text c)) (\<lambda>b.
     parse_loop rest (reviews @ [\<lparr>author = a, rating = length ms, review_text = b\<rparr>]))))"

text \<open>Lines 105 to 133, the body of the \<^verbatim>\<open>try\<close>.\<close>

definition try_body :: "session \<Rightarrow> review list io" where
  "try_body s =
     and_then (call FindButton (find_review_button s)) (\<lambda>_.
     and_then (call Click (click_review_button s)) (\<lambda>_.
     and_then (effect (Wait 3)) (\<lambda>_.
     and_then (effect (Print Loading)) (\<lambda>_.
     and_then (call FindPanel (find_scrollable_div s)) (\<lambda>_.
     and_then (scroll_loop s [0..<10]) (\<lambda>_.
     and_then (query FindReviews (find_review_elements s)) (\<lambda>review_elements.
     and_then (parse_loop review_elements []) (\<lambda>reviews.
     and_then (effect (Print (Scraped (length reviews)))) (\<lambda>_.
     ret reviews)))))))))"

text \<open>Lines 135 to 137, the handler.\<close>

definition on_exception :: "exn \<Rightarrow> review list io" where
  "on_exception e = and_then (effect (Print (ErrorScraping e))) (\<lambda>_. ret [])"

text \<open>The address of line 89.\<close>

definition place_url :: "string \<Rightarrow> string" where
  "place_url place_id = ''https://www.google.com/maps/place/?q=place_id:'' @ place_id"

text \<open>
  Lines 85 to 140. The launch and \<^verbatim>\<open>driver.get\<close> come before the \<^verbatim>\<open>try\<close>;
  \<^verbatim>\<open>driver.quit()\<close> is the statement after it.
\<close>

definition scrape_reviews :: "session \<Rightarrow> string \<Rightarrow> review list io" where
  "scrape_reviews s place_id =
     and_then (call StartChrome (launch s)) (\<lambda>_.
     and_then (effect (Print (Opening place_id))) (\<lambda>_.
     and_then (call (Get (place_url place_id)) (navigate s)) (\<lambda>_.
     and_then (effect (Wait 5)) (\<lambda>_.
     and_then (try_except (try_body s) on_exception) (\<lambda>reviews.
     and_then (effect Quit) (\<lambda>_.
     ret reviews))))))"

text \<open>
  Concrete sessions and review containers, used as inputs. In \<^verbatim>\<open>page_ok\<close> every call
  succeeds and the page shows the given containers.
\<close>

definition page_ok :: "container list \<Rightarrow> session" where
  "page_ok cs =
     \<lparr>launch = None, navigate = None, find_review_button = None,
      click_review_button = None, find_scrollable_div = None,
      execute_script = (\<lambda>i. None), find_review_elements = Inr cs\<rparr>"

definition launch_fails :: session where
  "launch_fails = (page_ok [])\<lparr>launch := Some WebDriverException\<rparr>"

definition navigation_fails :: session where
  "navigation_fails = (page_ok [])\<lparr>navigate := Some WebDriverException\<rparr>"

definition no_review_button :: session where
  "no_review_button = (page_ok [])\<lparr>find_review_button := Some NoSuchElementException\<rparr>"

definition ann_container :: container where
  "ann_container =
     \<lparr>find_author = Inr ''Ann'', find_markers = Inr [Marker, Marker, Marker, Marker],
      find_text = Inr ''Great place!''\<rparr>"

definition no_author_container :: container where
  "no_author_container =
     \<lparr>find_author = Inl NoSuchElementException, find_markers = Inr [Marker, Marker],
      find_text = Inr ''Too loud''\<rparr>"

definition no_text_container :: container where
  "no_text_container =
     \<lparr>find_author = Inr ''Bob'', find_markers = Inr [Marker],
      find_text = Inl NoSuchElementException\<rparr>"

subsection \<open>\<^verbatim>\<open>display_places\<close>\<close>

text \<open>
  A place record as the provider returns it: every key may be absent. The numbers
  (rating, latitude, longitude) are of a type \<^verbatim>\<open>'n\<close> that is only ever passed to Python's
  \<^verbatim>\<open>str\<close>, which is a parameter of the model. The key \<^verbatim>\<open>rating\<close> is the field
  \<^verbatim>\<open>place_rating\<close>, the key \<^verbatim>\<open>location\<close> of \<^verbatim>\<open>geometry\<close> the field \<^verbatim>\<open>geo_location\<close>.
\<close>

record 'n lat_lng =
  lat :: "'n option"
  lng :: "'n option"

record 'n geometry =
  geo_location :: "'n lat_lng option"

record 'n place =
  name :: "string option"
  place_rating :: "'n option"
  place_id :: "string option"
  geometry :: "'n geometry option"

datatype key_error = KeyError string

text \<open>\<^verbatim>\<open>place.get("geometry", {}).get("location", {})\<close>: the empty dictionary has neither
  key.\<close>

definition get_location :: "'n place \<Rightarrow> 'n lat_lng" where
  "get_location p =
     (case geometry p of
        None \<Rightarrow> \<lparr>lat = None, lng = None\<rparr>
      | Some g \<Rightarrow> (case geo_location g of
                    None \<Rightarrow> \<lparr>lat = None, lng = None\<rparr>
                  | Some l \<Rightarrow> l))"

text \<open>\<^verbatim>\<open>d.get(k, "N/A")\<close> for a string value, and \<^verbatim>\<open>str(d.get(k, "N/A"))\<close> for a number.\<close>

definition get_or_na :: "string option \<Rightarrow> string" where
  "get_or_na v = (case v of None \<Rightarrow> ''N/A'' | Some x \<Rightarrow> x)"

definition str_get_or_na :: "('n \<Rightarrow> string) \<Rightarrow> 'n option \<Rightarrow> string" where
  "str_get_or_na str v = (case v of None \<Rightarrow> ''N/A'' | Some x \<Rightarrow> str x)"

text \<open>
  Lines 152 to 163, the loop over \<^verbatim>\<open>places\<close> with the rows added to the table so far;
  \<^verbatim>\<open>place["place_id"]\<close> raises \<^verbatim>\<open>KeyError\<close> when the key is absent, after the other
  cells of the row have been computed.
\<close>

fun add_rows ::
  "('n \<Rightarrow> string) \<Rightarrow> 'n place list \<Rightarrow> string list list \<Rightarrow> key_error + string list list"
where
  "add_rows str [] table = Inr table"
| "add_rows str (p # rest) table =
     (let location = get_location p;
          lat_cell = str_get_or_na str (lat location);
          lng_cell = str_get_or_na str (lng location);
          name_cell = get_or_na (name p);
          rating_cell = str_get_or_na str (place_rating p)
      in case place_id p of
           None \<Rightarrow> Inl (KeyError ''place_id'')
         | Some pid \<Rightarrow>
             add_rows str rest (table @ [[name_cell, rating_cell, pid, lat_cell, lng_cell]]))"

text \<open>Lines 143 to 165: the rows of the table handed to \<^verbatim>\<open>console.print\<close>, or the
  exception raised before anything is printed.\<close>

definition display_places :: "('n \<Rightarrow> string) \<Rightarrow> 'n place list \<Rightarrow> key_error + string list list" where
  "display_places str places = add_rows str places []"

text \<open>Concrete places: the numbers are given by the text \<^verbatim>\<open>str\<close> renders them to.\<close>

definition shown :: "string \<Rightarrow> string" where
  "shown s = s"

definition test_hospital :: "string place" where
  "test_hospital =
     \<lparr>name = Some ''Test Hospital'', place_rating = Some ''4.5'', place_id = Some ''test123'',
      geometry = Some \<lparr>geo_location = Some \<lparr>lat = Some ''40.7128'', lng = Some ''-74.006''\<rparr>\<rparr>\<rparr>"

definition bare_place :: "string place" where
  "bare_place =
     \<lparr>name = None, place_rating = None, place_id = Some ''xyz'', geometry = None\<rparr>"

definition no_id_place :: "string place" where
  "no_id_place =
     \<lparr>name = Some ''Nameless'', place_rating = None, place_id = None, geometry = None\<rparr>"

section \<open>Properties of \<^verbatim>\<open>fetch_places\<close>\<close>

subsection \<open>The type filter\<close>

lemma type_filter_example:
  "type_filter (base_params ''k'' ''48.85'' ''2.35'' 1000 (Some ''hospital,pharmacy'')) =
     Some ''hospital|pharmacy''"
  by (simp add: base_params_def)

subsection \<open>One turn of the loop, and a run of it\<close>

lemma fetch_loop_continue:
  assumes "continues (provider i)"
  shows "fetch_loop provider verbose i p t places trace =
         fetch_loop provider verbose (Suc i) (set_token p t) (next_page_token (provider i))
           (places @ entries (provider i))
           (trace @ [Request (set_token p t)] @ dump verbose (provider i) @ [Sleep 2])"
  using assms
  by (subst fetch_loop.simps) (auto simp: continues_def entries_def set_token_def dump_def Let_def)

lemma fetch_loop_stop:
  assumes "\<not> continues (provider i)"
  shows "fetch_loop provider verbose i p t places trace =
         Some (places @ entries (provider i),
               trace @ [Request (set_token p t)] @ dump verbose (provider i)
                 @ (if results (provider i) = None then [LogError (provider i)] else []))"
  using assms
  by (subst fetch_loop.simps) (auto simp: continues_def entries_def set_token_def dump_def Let_def)

lemma set_token_again:
  "truthy t' \<Longrightarrow> set_token (set_token p t) t' = p\<lparr>pagetoken := t'\<rparr>"
  by (simp add: set_token_def)

lemma fetch_loop_run:
  assumes "\<forall>j<n. continues (provider (i + j))" and "\<not> continues (provider (i + n))"
  shows "fetch_loop provider verbose i p t places trace =
         Some (places @ concat (map (\<lambda>j. entries (provider j)) [i..<Suc (i + n)]),
               trace @ [Request (set_token p t)] @ dump verbose (provider i)
                 @ concat (map (next_page provider verbose p) [i..<i + n])
                 @ (if results (provider (i + n)) = None then [LogError (provider (i + n))] else []))"
  using assms
proof (induction n arbitrary: i p t places trace)
  case 0
  then show ?case by (simp add: fetch_loop_stop)
next
  case (Suc n)
  from Suc.prems(1) have c: "continues (provider i)" by (metis add.right_neutral zero_less_Suc)
  from Suc.prems(1) have rest: "\<forall>j<n. continues (provider (Suc i + j))" by auto
  from Suc.prems(2) have stop: "\<not> continues (provider (Suc i + n))" by simp
  from c have tr: "truthy (next_page_token (provider i))" by (simp add: continues_def)
  have np: "next_page provider verbose (set_token p t) = next_page provider verbose p"
    by (rule ext) (simp add: next_page_def set_token_def)
  have u1: "[i..<Suc (i + Suc n)] = i # [Suc i..<Suc (Suc i + n)]"
    by (simp add: upt_conv_Cons)
  have u2: "[i..<i + Suc n] = i # [Suc i..<Suc i + n]"
    by (simp add: upt_conv_Cons)
  show ?case
    unfolding fetch_loop_continue [of provider i, OF c] Suc.IH [of "Suc i", OF rest stop] u1 u2
    by (simp add: np set_token_again [OF tr] next_page_def [where j = i])
qed

lemma entries_present: "results r \<noteq> None \<Longrightarrow> entries r = the (results r)"
  by (auto simp: entries_def)

lemma requests_of_dump: "filter is_request (dump verbose r) = []"
  by (simp add: dump_def)

lemma requests_of_next_pages:
  "length (filter is_request (concat (map (next_page provider verbose p) js))) = length js"
  by (induction js) (simp_all add: next_page_def requests_of_dump)

lemma fetch_places_run:
  assumes "\<forall>j<n. continues (provider j)" and "\<not> continues (provider n)"
  shows "fetch_places provider api_key lat_s lng_s rad types verbose =
         Some (concat (map (\<lambda>j. entries (provider j)) [0..<Suc n]),
               [Request (base_params api_key lat_s lng_s rad types)] @ dump verbose (provider 0)
                 @ concat (map (next_page provider verbose (base_params api_key lat_s lng_s rad types)) [0..<n])
                 @ (if results (provider n) = None then [LogError (provider n)] else []))"
  using assms fetch_loop_run [of n provider 0 verbose "base_params api_key lat_s lng_s rad types" None "[]" "[]"]
  by (simp add: fetch_places_def set_token_def)

text \<open>
  C1. When the provider answers with pages that all carry a \<^verbatim>\<open>results\<close> array, the
  pages \<^verbatim>\<open>0\<close> to \<^verbatim>\<open>n\<close> being those received (every page before \<^verbatim>\<open>n\<close> has a
  cursor, page \<^verbatim>\<open>n\<close> has none), \<^verbatim>\<open>fetch_places\<close> returns, and what it returns is the
  entries of page 0, then those of page 1, and so on to page \<^verbatim>\<open>n\<close>, each page in its
  own order and nothing removed.
\<close>

theorem fetch_places_concatenates_pages:
  assumes "\<forall>j<n. truthy (next_page_token (provider j))"
    and "\<not> truthy (next_page_token (provider n))"
    and "\<forall>j\<le>n. results (provider j) \<noteq> None"
  shows "\<exists>trace. fetch_places provider api_key lat_s lng_s rad types verbose =
           Some (concat (map (\<lambda>j. the (results (provider j))) [0..<Suc n]), trace)"
proof -
  from assms have run: "\<forall>j<n. continues (provider j)" "\<not> continues (provider n)"
    by (simp_all add: continues_def)
  have "entries (provider j) = the (results (provider j))" if "j \<le> n" for j
    using assms(3) that by (simp add: entries_present)
  then have m: "map (\<lambda>j. entries (provider j)) [0..<Suc n] = map (\<lambda>j. the (results (provider j))) [0..<Suc n]"
    by (simp add: less_Suc_eq_le)
  show ?thesis
    unfolding fetch_places_run [OF run] m by simp
qed

text \<open>Two pages that share the entry \<^verbatim>\<open>b\<close>: it is returned twice.\<close>

theorem fetch_places_concatenates_pages_witness:
  "truthy (next_page_token (two_pages 0))
   \<and> \<not> truthy (next_page_token (two_pages 1))
   \<and> results (two_pages 0) \<noteq> None \<and> results (two_pages 1) \<noteq> None
   \<and> (\<exists>trace. fetch_places two_pages ''k'' ''48.85'' ''2.35'' 1000 (Some ''hospital,pharmacy'') False =
          Some ([''a'', ''b'', ''b''], trace))"
  using fetch_places_concatenates_pages [of 1 two_pages "''k''" "''48.85''" "''2.35''" 1000 "Some ''hospital,pharmacy''" False]
  by (simp add: two_pages_def le_Suc_eq)

text \<open>
  C4. When page \<^verbatim>\<open>n\<close> is the first response without a \<^verbatim>\<open>results\<close> field,
  \<^verbatim>\<open>fetch_places\<close> returns the entries of the pages before it (none when \<^verbatim>\<open>n = 0\<close>);
  it has issued \<^verbatim>\<open>n + 1\<close> requests, one per response and none after the failing one,
  and the last thing it did was to log that response.
\<close>

theorem fetch_places_stops_without_results:
  assumes "\<forall>j<n. results (provider j) \<noteq> None \<and> truthy (next_page_token (provider j))"
    and "results (provider n) = None"
  shows "\<exists>trace. fetch_places provider api_key lat_s lng_s rad types verbose =
           Some (concat (map (\<lambda>j. the (results (provider j))) [0..<n]), trace)
         \<and> length (filter is_request trace) = Suc n
         \<and> last trace = LogError (provider n)"
proof -
  from assms have run: "\<forall>j<n. continues (provider j)" "\<not> continues (provider n)"
    by (simp_all add: continues_def)
  have "entries (provider j) = the (results (provider j))" if "j < n" for j
    using assms(1) that by (simp add: entries_present)
  then have m: "map (\<lambda>j. entries (provider j)) [0..<n] = map (\<lambda>j. the (results (provider j))) [0..<n]"
    by simp
  have e: "entries (provider n) = []"
    using assms(2) by (simp add: entries_def)
  have "concat (map (\<lambda>j. entries (provider j)) [0..<Suc n]) =
        concat (map (\<lambda>j. the (results (provider j))) [0..<n])"
    unfolding upt_Suc_append [OF le0] map_append concat_append m by (simp add: e)
  then show ?thesis
    unfolding fetch_places_run [OF run]
    by (simp add: assms(2) requests_of_dump requests_of_next_pages)
qed

text \<open>One good page, then a response without \<^verbatim>\<open>results\<close>.\<close>

theorem fetch_places_stops_without_results_witness:
  "results (page_then_error 0) \<noteq> None \<and> truthy (next_page_token (page_then_error 0))
   \<and> results (page_then_error 1) = None
   \<and> (\<exists>trace. fetch_places page_then_error ''k'' ''48.85'' ''2.35'' 1000 None False =
          Some ([''a'', ''b''], trace)
        \<and> length (filter is_request trace) = 2
        \<and> last trace = LogError \<lparr>results = None, next_page_token = None\<rparr>)"
  using fetch_places_stops_without_results [of 1 page_then_error "''k''" "''48.85''" "''2.35''" 1000 None False]
  by (simp add: page_then_error_def numeral_2_eq_2)

text \<open>
  C6 as stated fails: a response that carries a cursor but no \<^verbatim>\<open>results\<close> field ends
  the loop at the first \<^verbatim>\<open>break\<close>; one request is issued, none carries the cursor, and
  nothing sleeps.
\<close>

theorem fetch_places_cursor_without_results_counterexample:
  "next_page_token (cursor_without_results 0) = Some ''tok1''
   \<and> fetch_places cursor_without_results ''k'' ''48.85'' ''2.35'' 1000 None False =
       Some ([], [Request \<lparr>location = ''48.85,2.35'', radius = 1000, key = ''k'',
                            type_filter = None, pagetoken = None\<rparr>,
                  LogError \<lparr>results = None, next_page_token = Some ''tok1''\<rparr>])"
  by (simp add: fetch_places_def fetch_loop.simps cursor_without_results_def base_params_def)

text \<open>
  A cursor that is the empty string is false for \<^verbatim>\<open>if not next_page_token\<close>: the loop
  ends after the one request, without a sleep.
\<close>

lemma fetch_places_empty_cursor_stops:
  "fetch_places empty_cursor ''k'' ''48.85'' ''2.35'' 1000 None False =
     Some ([''a''], [Request \<lparr>location = ''48.85,2.35'', radius = 1000, key = ''k'',
                              type_filter = None, pagetoken = None\<rparr>])"
  by (simp add: fetch_places_def fetch_loop.simps empty_cursor_def base_params_def)

text \<open>
  C6, amended. Let the loop end at page \<^verbatim>\<open>n\<close>. Every earlier response \<^verbatim>\<open>i\<close>, which
  has a \<^verbatim>\<open>results\<close> field and a non-empty cursor, is followed by \<^verbatim>\<open>time.sleep(2)\<close> and
  then, with nothing in between, by a request whose \<^verbatim>\<open>pagetoken\<close> is that cursor; the
  \<^verbatim>\<open>i + 1\<close> requests before the sleep are those of the pages \<^verbatim>\<open>0\<close> to \<^verbatim>\<open>i\<close>.
\<close>

theorem fetch_places_follows_cursor:
  assumes "\<forall>j<n. results (provider j) \<noteq> None \<and> truthy (next_page_token (provider j))"
    and "results (provider n) = None \<or> \<not> truthy (next_page_token (provider n))"
    and "i < n"
  shows "\<exists>places pre post.
           fetch_places provider api_key lat_s lng_s rad types verbose =
             Some (places,
                   pre @ [Sleep 2,
                          Request ((base_params api_key lat_s lng_s rad types)
                                     \<lparr>pagetoken := next_page_token (provider i)\<rparr>)] @ post)
           \<and> length (filter is_request pre) = Suc i"
proof -
  let ?p = "base_params api_key lat_s lng_s rad types"
  from assms have run: "\<forall>j<n. continues (provider j)" "\<not> continues (provider n)"
    by (auto simp: continues_def)
  from \<open>i < n\<close> have split: "[0..<n] = [0..<i] @ i # [Suc i..<n]"
    by (metis less_imp_add_positive upt_add_eq_append upt_conv_Cons zero_le)
  let ?pre = "[Request ?p] @ dump verbose (provider 0) @ concat (map (next_page provider verbose ?p) [0..<i])"
  let ?post = "dump verbose (provider (Suc i)) @ concat (map (next_page provider verbose ?p) [Suc i..<n])
                 @ (if results (provider n) = None then [LogError (provider n)] else [])"
  have "fetch_places provider api_key lat_s lng_s rad types verbose =
          Some (concat (map (\<lambda>j. entries (provider j)) [0..<Suc n]),
                ?pre @ [Sleep 2, Request (?p\<lparr>pagetoken := next_page_token (provider i)\<rparr>)] @ ?post)"
    unfolding fetch_places_run [OF run] split
    by (simp add: next_page_def [where j = i])
  moreover have "length (filter is_request ?pre) = Suc i"
    by (simp add: requests_of_dump requests_of_next_pages)
  ultimately show ?thesis
    by blast
qed

text \<open>The cursor of the first of two pages.\<close>

theorem fetch_places_follows_cursor_witness:
  "results (two_pages 0) \<noteq> None \<and> truthy (next_page_token (two_pages 0))
   \<and> \<not> truthy (next_page_token (two_pages 1))
   \<and> (0::nat) < 1
   \<and> (\<exists>places pre post.
          fetch_places two_pages ''k'' ''48.85'' ''2.35'' 1000 None False =
            Some (places,
                  pre @ [Sleep 2,
                         Request \<lparr>location = ''48.85,2.35'', radius = 1000, key = ''k'',
                                  type_filter = None, pagetoken = Some ''tok1''\<rparr>] @ post)
          \<and> length (filter is_request pre) = 1)"
  using fetch_places_follows_cursor [of 1 two_pages 0 "''k''" "''48.85''" "''2.35''" 1000 None False]
  by (simp add: two_pages_def base_params_def)

section \<open>Properties of \<^verbatim>\<open>scrape_reviews\<close>\<close>

subsection \<open>Sequencing and \<^verbatim>\<open>try\<close>\<close>

lemma and_then_raise: "fst m = Inl e \<Longrightarrow> and_then m f = (Inl e, snd m)"
  by (simp add: and_then_def)

lemma and_then_value: "fst m = Inr x \<Longrightarrow> and_then m f = (fst (f x), snd m @ snd (f x))"
  by (simp add: and_then_def)

lemma and_then_effect: "and_then (effect ev) f = (fst (f ()), ev # snd (f ()))"
  by (simp add: and_then_def effect_def)

lemma and_then_call_ok: "and_then (call ev None) f = (fst (f ()), ev # snd (f ()))"
  by (simp add: and_then_def call_def)

lemma and_then_call_raise: "and_then (call ev (Some e)) f = (Inl e, [ev])"
  by (simp add: and_then_def call_def)

lemma and_then_query_ok: "and_then (query ev (Inr x)) f = (fst (f x), ev # snd (f x))"
  by (simp add: and_then_def query_def)

lemma and_then_query_raise: "and_then (query ev (Inl e)) f = (Inl e, [ev])"
  by (simp add: and_then_def query_def)

lemma and_then_Inr: "and_then (Inr x, t) f = (fst (f x), t @ snd (f x))"
  by (simp add: and_then_def)

lemma and_then_Inl: "and_then (Inl e, t) f = (Inl e, t)"
  by (simp add: and_then_def)

lemma try_except_raise: "fst m = Inl e \<Longrightarrow> try_except m h = (fst (h e), snd m @ snd (h e))"
  by (simp add: try_except_def)

lemma try_except_value: "fst m = Inr x \<Longrightarrow> try_except m h = (Inr x, snd m)"
  by (simp add: try_except_def)

lemma on_exception_eq: "on_exception e = (Inr [], [Print (ErrorScraping e)])"
  by (simp add: on_exception_def and_then_def effect_def ret_def)

lemmas io_simps = and_then_effect and_then_call_ok and_then_call_raise and_then_query_ok
  and_then_query_raise and_then_Inr and_then_Inl ret_def

subsection \<open>The four ways out of \<^verbatim>\<open>scrape_reviews\<close>\<close>

text \<open>
  The launch raises; \<^verbatim>\<open>driver.get\<close> raises; the \<^verbatim>\<open>try\<close> body raises and the handler
  runs; the \<^verbatim>\<open>try\<close> body ends normally. Only the last two reach \<^verbatim>\<open>driver.quit()\<close>.
\<close>

lemma scrape_reviews_launch_raises:
  "launch s = Some e \<Longrightarrow> scrape_reviews s pid = (Inl e, [StartChrome])"
  by (simp add: scrape_reviews_def io_simps)

lemma scrape_reviews_navigate_raises:
  "launch s = None \<Longrightarrow> navigate s = Some e \<Longrightarrow>
   scrape_reviews s pid =
     (Inl e, [StartChrome, Print (Opening pid), Get (place_url pid)])"
  by (simp add: scrape_reviews_def io_simps)

lemma scrape_reviews_caught:
  "launch s = None \<Longrightarrow> navigate s = None \<Longrightarrow> fst (try_body s) = Inl e \<Longrightarrow>
   scrape_reviews s pid =
     (Inr [], [StartChrome, Print (Opening pid), Get (place_url pid), Wait 5]
               @ snd (try_body s) @ [Print (ErrorScraping e), Quit])"
  by (simp add: scrape_reviews_def io_simps try_except_raise try_except_value on_exception_eq)

lemma scrape_reviews_parsed:
  "launch s = None \<Longrightarrow> navigate s = None \<Longrightarrow> fst (try_body s) = Inr rs \<Longrightarrow>
   scrape_reviews s pid =
     (Inr rs, [StartChrome, Print (Opening pid), Get (place_url pid), Wait 5]
               @ snd (try_body s) @ [Quit])"
  by (simp add: scrape_reviews_def io_simps try_except_raise try_except_value on_exception_eq)

subsection \<open>The body of the \<^verbatim>\<open>try\<close>\<close>

lemma try_body_no_button:
  "find_review_button s = Some e \<Longrightarrow> try_body s = (Inl e, [FindButton])"
  by (simp add: try_body_def io_simps)

lemma scroll_loop_ok:
  "\<forall>i\<in>set js. execute_script s i = None \<Longrightarrow>
   scroll_loop s js = (Inr (), concat (map (\<lambda>i. [Scroll, Wait 1]) js))"
  by (induction js) (simp_all add: io_simps)

lemma scroll_loop_no_quit: "Quit \<notin> set (snd (scroll_loop s js))"
proof (induction js)
  case Nil
  show ?case by (simp add: ret_def)
next
  case (Cons i js)
  then show ?case by (cases "execute_script s i") (simp_all add: io_simps)
qed

lemma parse_loop_no_quit: "Quit \<notin> set (snd (parse_loop cs reviews))"
proof (induction cs arbitrary: reviews)
  case Nil
  show ?case by (simp add: ret_def)
next
  case (Cons c cs)
  show ?case
    by (cases "find_author c"; cases "find_markers c"; cases "find_text c")
       (simp_all add: io_simps Cons.IH)
qed

lemma parse_loop_missing:
  assumes "c \<in> set cs" and "find_author c = Inl e \<or> find_text c = Inl e"
  shows "\<exists>e'. fst (parse_loop cs reviews) = Inl e'"
  using assms
proof (induction cs arbitrary: reviews)
  case Nil
  then show ?case by simp
next
  case (Cons d cs)
  show ?case
  proof (cases "find_author d")
    case (Inl a)
    then show ?thesis by (simp add: io_simps)
  next
    case author: (Inr a)
    show ?thesis
    proof (cases "find_markers d")
      case (Inl a)
      with author show ?thesis by (simp add: io_simps)
    next
      case markers: (Inr ms)
      show ?thesis
      proof (cases "find_text d")
        case (Inl a)
        with author markers show ?thesis by (simp add: io_simps)
      next
        case body: (Inr b)
        with author Cons.prems have "c \<in> set cs" by auto
        from Cons.IH [OF this Cons.prems(2)] author markers body show ?thesis
          by (simp add: io_simps)
      qed
    qed
  qed
qed

lemma parse_loop_one:
  "find_author c = Inr a \<Longrightarrow> find_markers c = Inr ms \<Longrightarrow> find_text c = Inr b \<Longrightarrow>
   parse_loop (c # cs) reviews =
     (fst (parse_loop cs (reviews @ [\<lparr>author = a, rating = length ms, review_text = b\<rparr>])),
      [FindAuthor, FindMarkers, FindText]
        @ snd (parse_loop cs (reviews @ [\<lparr>author = a, rating = length ms, review_text = b\<rparr>])))"
  by (simp add: io_simps)

lemma fst_and_then: "fst (and_then m f) = (case fst m of Inl e \<Rightarrow> Inl e | Inr x \<Rightarrow> fst (f x))"
  by (simp add: and_then_def split: sum.splits)

lemma fst_call: "fst (call ev raised) = (case raised of None \<Rightarrow> Inr () | Some e \<Rightarrow> Inl e)"
  by (simp add: call_def split: option.splits)

lemma fst_query: "fst (query ev answer) = answer"
  by (simp add: query_def)

lemma fst_effect: "fst (effect ev) = Inr ()"
  by (simp add: effect_def)

lemma try_body_result:
  assumes "find_review_button s = None" and "click_review_button s = None"
    and "find_scrollable_div s = None" and "\<forall>i<10. execute_script s i = None"
    and "find_review_elements s = Inr cs"
  shows "fst (try_body s) = fst (parse_loop cs [])"
proof -
  from assms(4) have "fst (scroll_loop s [0..<10]) = Inr ()"
    by (simp add: scroll_loop_ok)
  with assms(1,2,3,5) show ?thesis
    by (simp add: try_body_def fst_and_then fst_call fst_query fst_effect ret_def
             split: sum.splits)
qed

lemma try_body_parse_raises:
  assumes "find_review_elements s = Inr cs" and "fst (parse_loop cs []) = Inl e"
  shows "\<exists>e'. fst (try_body s) = Inl e'"
  using assms
  by (simp add: try_body_def fst_and_then fst_call fst_query fst_effect
           split: sum.splits option.splits)

lemma and_then_no_quit:
  assumes "Quit \<notin> set (snd m)" and "\<And>x. Quit \<notin> set (snd (f x))"
  shows "Quit \<notin> set (snd (and_then m f))"
  using assms by (simp add: and_then_def split: sum.splits)

lemma call_no_quit: "ev \<noteq> Quit \<Longrightarrow> Quit \<notin> set (snd (call ev raised))"
  by (simp add: call_def split: option.splits)

lemma query_no_quit: "ev \<noteq> Quit \<Longrightarrow> Quit \<notin> set (snd (query ev answer))"
  by (simp add: query_def)

lemma effect_no_quit: "ev \<noteq> Quit \<Longrightarrow> Quit \<notin> set (snd (effect ev))"
  by (simp add: effect_def)

lemma try_body_no_quit: "Quit \<notin> set (snd (try_body s))"
  unfolding try_body_def
  by (intro and_then_no_quit call_no_quit query_no_quit effect_no_quit
        scroll_loop_no_quit parse_loop_no_quit)
     (simp_all add: ret_def)

text \<open>
  Once the session is started and the page is loaded, every way out, whether the
  \<^verbatim>\<open>try\<close> body raised or not, calls \<^verbatim>\<open>driver.quit()\<close> exactly once, as the last
  effect.
\<close>

lemma scrape_reviews_quits_once:
  assumes "launch s = None" and "navigate s = None"
  shows "count_list (snd (scrape_reviews s pid)) Quit = 1 \<and> last (snd (scrape_reviews s pid)) = Quit"
proof (cases "fst (try_body s)")
  case (Inl e)
  from try_body_no_quit [of s] have "count_list (snd (try_body s)) Quit = 0"
    by simp
  then show ?thesis
    by (simp add: scrape_reviews_caught [OF assms Inl])
next
  case (Inr rs)
  from try_body_no_quit [of s] have "count_list (snd (try_body s)) Quit = 0"
    by simp
  then show ?thesis
    by (simp add: scrape_reviews_parsed [OF assms Inr])
qed

subsection \<open>The claims about \<^verbatim>\<open>scrape_reviews\<close>\<close>

text \<open>
  C2. The session is to be terminated exactly once on every exit path, a failing
  navigation included. In the session \<^verbatim>\<open>navigation_fails\<close> Chrome starts and
  \<^verbatim>\<open>driver.get(url)\<close> raises: the exception leaves \<^verbatim>\<open>scrape_reviews\<close> and the effects
  end with the \<^verbatim>\<open>get\<close>; there is no \<^verbatim>\<open>Quit\<close> among them, the started session is left
  running.
\<close>

theorem scrape_reviews_navigation_failure_keeps_session:
  "launch navigation_fails = None
   \<and> navigate navigation_fails = Some WebDriverException
   \<and> scrape_reviews navigation_fails ''test123'' =
       (Inl WebDriverException,
        [StartChrome, Print (Opening ''test123''),
         Get ''https://www.google.com/maps/place/?q=place_id:test123''])
   \<and> count_list (snd (scrape_reviews navigation_fails ''test123'')) Quit = 0"
proof -
  have started: "launch navigation_fails = None"
    and failed: "navigate navigation_fails = Some WebDriverException"
    by (simp_all add: navigation_fails_def page_ok_def)
  from scrape_reviews_navigate_raises [OF started failed, of "''test123''"] started failed
  show ?thesis by (simp add: place_url_def)
qed

text \<open>
  C3 as stated fails: when the launch of Chrome raises, the exception reaches the caller
  of \<^verbatim>\<open>scrape_reviews\<close>; no list is returned.
\<close>

theorem scrape_reviews_launch_failure_counterexample:
  "fst (scrape_reviews launch_fails ''test123'') = Inl WebDriverException"
  by (simp add: scrape_reviews_launch_raises launch_fails_def page_ok_def)

text \<open>
  C3, amended. Whenever the session has started and the page has loaded,
  \<^verbatim>\<open>scrape_reviews\<close> returns a list, whatever the session does afterwards; an exception
  raised while revealing, scrolling or parsing is caught, printed, and turned into the empty
  list.
\<close>

theorem scrape_reviews_absorbs_failures:
  assumes "launch s = None" and "navigate s = None"
  shows "\<exists>rs. fst (scrape_reviews s pid) = Inr rs
           \<and> (\<forall>e. fst (try_body s) = Inl e \<longrightarrow>
                  rs = [] \<and> Print (ErrorScraping e) \<in> set (snd (scrape_reviews s pid)))"
proof (cases "fst (try_body s)")
  case (Inl e)
  then show ?thesis
    by (simp add: scrape_reviews_caught [OF assms Inl])
next
  case (Inr rs)
  then show ?thesis
    by (simp add: scrape_reviews_parsed [OF assms Inr])
qed

text \<open>A page without the reviews button.\<close>

theorem scrape_reviews_absorbs_failures_witness:
  "launch no_review_button = None \<and> navigate no_review_button = None
   \<and> fst (try_body no_review_button) = Inl NoSuchElementException
   \<and> fst (scrape_reviews no_review_button ''test123'') = Inr []
   \<and> Print (ErrorScraping NoSuchElementException)
         \<in> set (snd (scrape_reviews no_review_button ''test123''))"
proof -
  have started: "launch no_review_button = None" "navigate no_review_button = None"
    by (simp_all add: no_review_button_def page_ok_def)
  have raised: "fst (try_body no_review_button) = Inl NoSuchElementException"
    by (simp add: try_body_no_button no_review_button_def page_ok_def)
  from scrape_reviews_absorbs_failures [OF started, of "''test123''"] raised started
  show ?thesis by auto
qed

text \<open>
  C7. When the reviews button cannot be found on the loaded page, \<^verbatim>\<open>find_element\<close>
  raises \<^verbatim>\<open>NoSuchElementException\<close>, the handler prints it, the session is quit and the
  empty list is returned.
\<close>

theorem scrape_reviews_without_review_button:
  assumes "launch s = None" and "navigate s = None"
    and "find_review_button s = Some NoSuchElementException"
  shows "scrape_reviews s pid =
           (Inr [],
            [StartChrome, Print (Opening pid), Get (place_url pid), Wait 5, FindButton,
             Print (ErrorScraping NoSuchElementException), Quit])"
  using scrape_reviews_caught [OF assms(1,2), of NoSuchElementException pid]
  by (simp add: try_body_no_button [OF assms(3)])

text \<open>The session \<^verbatim>\<open>no_review_button\<close>.\<close>

theorem scrape_reviews_without_review_button_witness:
  "launch no_review_button = None \<and> navigate no_review_button = None
   \<and> find_review_button no_review_button = Some NoSuchElementException
   \<and> scrape_reviews no_review_button ''test123'' =
       (Inr [],
        [StartChrome, Print (Opening ''test123''),
         Get ''https://www.google.com/maps/place/?q=place_id:test123'', Wait 5, FindButton,
         Print (ErrorScraping NoSuchElementException), Quit])"
  using scrape_reviews_without_review_button [of no_review_button "''test123''"]
  by (simp add: no_review_button_def page_ok_def place_url_def)

text \<open>
  C8. A page on which every step succeeds and that shows one review container, with
  author text \<^verbatim>\<open>a\<close>, \<^verbatim>\<open>n\<close> rating markers and body text \<^verbatim>\<open>b\<close>, yields exactly the
  one review with these three values.
\<close>

theorem scrape_reviews_one_container:
  assumes "launch s = None" and "navigate s = None"
    and "find_review_button s = None" and "click_review_button s = None"
    and "find_scrollable_div s = None" and "\<forall>i<10. execute_script s i = None"
    and "find_review_elements s = Inr [c]"
    and "find_author c = Inr a" and "find_markers c = Inr ms" and "length ms = n"
    and "find_text c = Inr b"
  shows "fst (scrape_reviews s pid) = Inr [\<lparr>author = a, rating = n, review_text = b\<rparr>]"
proof -
  have "fst (parse_loop [c] []) = Inr [\<lparr>author = a, rating = n, review_text = b\<rparr>]"
    using assms(8-11) by (simp add: io_simps)
  with try_body_result [OF assms(3-7)]
  have "fst (try_body s) = Inr [\<lparr>author = a, rating = n, review_text = b\<rparr>]"
    by simp
  from scrape_reviews_parsed [OF assms(1,2) this] show ?thesis
    by simp
qed

text \<open>Ann's review, four markers.\<close>

theorem scrape_reviews_one_container_witness:
  "launch (page_ok [ann_container]) = None \<and> navigate (page_ok [ann_container]) = None
   \<and> find_review_button (page_ok [ann_container]) = None
   \<and> click_review_button (page_ok [ann_container]) = None
   \<and> find_scrollable_div (page_ok [ann_container]) = None
   \<and> (\<forall>i. execute_script (page_ok [ann_container]) i = None)
   \<and> find_review_elements (page_ok [ann_container]) = Inr [ann_container]
   \<and> find_author ann_container = Inr ''Ann''
   \<and> find_markers ann_container = Inr [Marker, Marker, Marker, Marker]
   \<and> length [Marker, Marker, Marker, Marker] = 4
   \<and> find_text ann_container = Inr ''Great place!''
   \<and> fst (scrape_reviews (page_ok [ann_container]) ''test123'') =
       Inr [\<lparr>author = ''Ann'', rating = 4, review_text = ''Great place!''\<rparr>]"
  using scrape_reviews_one_container [of "page_ok [ann_container]" ann_container "''Ann''"
      "[Marker, Marker, Marker, Marker]" 4 "''Great place!''" "''test123''"]
  by (simp add: page_ok_def ann_container_def)

lemma try_body_page_ok: "fst (try_body (page_ok cs)) = fst (parse_loop cs [])"
  by (rule try_body_result) (simp_all add: page_ok_def)

text \<open>
  C5 as stated fails: the page shows Ann's well-formed review and then a container
  without author. The claim has Ann's review returned; the exception of the second
  container reaches the handler of the invocation, which empties the list.
\<close>

theorem scrape_reviews_missing_author_counterexample:
  "find_author ann_container = Inr ''Ann''
   \<and> find_markers ann_container = Inr [Marker, Marker, Marker, Marker]
   \<and> find_text ann_container = Inr ''Great place!''
   \<and> find_author no_author_container = Inl NoSuchElementException
   \<and> fst (scrape_reviews (page_ok [ann_container, no_author_container]) ''test123'') = Inr []"
proof -
  have "fst (try_body (page_ok [ann_container, no_author_container])) = Inl NoSuchElementException"
    by (simp add: try_body_page_ok io_simps ann_container_def no_author_container_def)
  then have "fst (scrape_reviews (page_ok [ann_container, no_author_container]) ''test123'') = Inr []"
    by (simp add: scrape_reviews_caught page_ok_def)
  then show ?thesis
    by (simp add: ann_container_def no_author_container_def)
qed

text \<open>
  C5, amended. When a review container of the page lacks its author or its body, the
  extraction of all containers is given up: \<^verbatim>\<open>scrape_reviews\<close> returns the empty list,
  without the reviews of the other containers.
\<close>

theorem scrape_reviews_missing_sub_element:
  assumes "launch s = None" and "navigate s = None"
    and "find_review_elements s = Inr cs" and "c \<in> set cs"
    and "find_author c = Inl e \<or> find_text c = Inl e"
  shows "fst (scrape_reviews s pid) = Inr []"
proof -
  from parse_loop_missing [OF assms(4,5)]
  obtain e1 where "fst (parse_loop cs []) = Inl e1"
    by blast
  from try_body_parse_raises [OF assms(3) this]
  obtain e2 where "fst (try_body s) = Inl e2"
    by blast
  from scrape_reviews_caught [OF assms(1,2) this] show ?thesis
    by simp
qed

text \<open>Ann's container followed by the one without author.\<close>

theorem scrape_reviews_missing_sub_element_witness:
  "launch (page_ok [ann_container, no_author_container]) = None
   \<and> navigate (page_ok [ann_container, no_author_container]) = None
   \<and> find_review_elements (page_ok [ann_container, no_author_container]) =
       Inr [ann_container, no_author_container]
   \<and> no_author_container \<in> set [ann_container, no_author_container]
   \<and> (find_author no_author_container = Inl NoSuchElementException
        \<or> find_text no_author_container = Inl NoSuchElementException)
   \<and> fst (scrape_reviews (page_ok [ann_container, no_author_container]) ''test123'') = Inr []"
  using scrape_reviews_missing_sub_element [of "page_ok [ann_container, no_author_container]"
      "[ann_container, no_author_container]" no_author_container NoSuchElementException "''test123''"]
  by (simp add: page_ok_def no_author_container_def)

text \<open>
  C9. Whenever the \<^verbatim>\<open>try\<close> body raises, \<^verbatim>\<open>scrape_reviews\<close> returns the empty list,
  whatever had been appended to \<^verbatim>\<open>reviews\<close> before.
\<close>

theorem scrape_reviews_failure_returns_nothing:
  assumes "launch s = None" and "navigate s = None" and "fst (try_body s) = Inl e"
  shows "fst (scrape_reviews s pid) = Inr []"
  using scrape_reviews_caught [OF assms] by simp

text \<open>Ann's review is parsed first, then the container without body raises: Ann's review
  is not returned.\<close>

theorem scrape_reviews_failure_returns_nothing_witness:
  "launch (page_ok [ann_container, no_text_container]) = None
   \<and> navigate (page_ok [ann_container, no_text_container]) = None
   \<and> fst (try_body (page_ok [ann_container, no_text_container])) = Inl NoSuchElementException
   \<and> fst (scrape_reviews (page_ok [ann_container, no_text_container]) ''test123'') = Inr []"
proof -
  have raised: "fst (try_body (page_ok [ann_container, no_text_container])) = Inl NoSuchElementException"
    by (simp add: try_body_page_ok io_simps ann_container_def no_text_container_def)
  have started: "launch (page_ok [ann_container, no_text_container]) = None"
    "navigate (page_ok [ann_container, no_text_container]) = None"
    by (simp_all add: page_ok_def)
  from scrape_reviews_failure_returns_nothing [OF started raised, of "''test123''"] raised started
  show ?thesis by simp
qed

section \<open>Properties of \<^verbatim>\<open>display_places\<close>\<close>

lemma add_rows_eq:
  "add_rows str ps table =
     (if \<forall>p\<in>set ps. place_id p \<noteq> None
      then Inr (table @ map (\<lambda>p. [get_or_na (name p), str_get_or_na str (place_rating p),
                                   the (place_id p),
                                   str_get_or_na str (lat (get_location p)),
                                   str_get_or_na str (lng (get_location p))]) ps)
      else Inl (KeyError ''place_id''))"
proof (induction ps arbitrary: table)
  case Nil
  show ?case by simp
next
  case (Cons p ps)
  show ?case
    by (cases "place_id p") (simp_all add: Cons.IH Let_def)
qed

text \<open>
  C10. When every place has a \<^verbatim>\<open>place_id\<close>, the table gets one row per place, in
  order, with \<^verbatim>\<open>N/A\<close> in place of a missing name, rating, latitude or longitude; when some
  place has none, \<^verbatim>\<open>display_places\<close> raises \<^verbatim>\<open>KeyError\<close> and prints nothing.
\<close>

theorem display_places_rows:
  "display_places str places =
     (if \<forall>p\<in>set places. place_id p \<noteq> None
      then Inr (map (\<lambda>p. [case name p of None \<Rightarrow> ''N/A'' | Some x \<Rightarrow> x,
                          case place_rating p of None \<Rightarrow> ''N/A'' | Some x \<Rightarrow> str x,
                          the (place_id p),
                          case lat (get_location p) of None \<Rightarrow> ''N/A'' | Some x \<Rightarrow> str x,
                          case lng (get_location p) of None \<Rightarrow> ''N/A'' | Some x \<Rightarrow> str x])
                 places)
      else Inl (KeyError ''place_id''))"
  by (simp add: display_places_def add_rows_eq get_or_na_def str_get_or_na_def)

text \<open>The place of the repository's test next to a place that has only its identifier, and
  next to a place without identifier.\<close>

theorem display_places_rows_witness:
  "place_id test_hospital \<noteq> None \<and> place_id bare_place \<noteq> None
   \<and> display_places shown [test_hospital, bare_place] =
       Inr [[''Test Hospital'', ''4.5'', ''test123'', ''40.7128'', ''-74.006''],
            [''N/A'', ''N/A'', ''xyz'', ''N/A'', ''N/A'']]
   \<and> place_id no_id_place = None
   \<and> display_places shown [test_hospital, no_id_place] = Inl (KeyError ''place_id'')"
  using display_places_rows [of shown "[test_hospital, bare_place]"]
    display_places_rows [of shown "[test_hospital, no_id_place]"]
  by (simp add: test_hospital_def bare_place_def no_id_place_def get_location_def shown_def)

end
